theory Spec2Isabelle
  imports Complex_Main
begin

section \<open>Bayesian optimisation loop of \<^verbatim>\<open>bayesopt/bo.py\<close>\<close>

text \<open>
  A shallow embedding of the class \<^verbatim>\<open>BayesOpt\<close>. The object is a record, each method a
  function that takes the object and returns the updated one, and each exception a value.
  Floating-point numbers are read as reals (so there is no NaN and every two values
  compare), a location is the list of its coordinates, and the callables the class is
  given (objective, acquisition optimiser, termination predicate) are functions of their
  arguments that either return a value or raise, and that leave the object alone. What
  the loop prints (line 137) is not modelled.
\<close>

subsection \<open>Values\<close>

type_synonym loc = "real list"

text \<open>Arrays as the class meets them: rank one, or rank two as a list of rows.\<close>

datatype ndarray = Array1D "real list" | Array2D "real list list"

text \<open>\<^verbatim>\<open>a.shape[0]\<close>\<close>

fun shape0 :: "ndarray \<Rightarrow> nat" where
  "shape0 (Array1D xs) = length xs"
| "shape0 (Array2D rows) = length rows"

text \<open>The numbers an array holds, in row-major order.\<close>

fun values_of :: "ndarray \<Rightarrow> real list" where
  "values_of (Array1D xs) = xs"
| "values_of (Array2D rows) = concat rows"

text \<open>
  What a Python callable is handed as one positional argument: a scalar (an element of an
  unpacked row) or an array.
\<close>

datatype pyvalue = Scalar real | Array ndarray

text \<open>
  \<^verbatim>\<open>ValueError\<close> is the exception of \<^verbatim>\<open>__calculate_initialY\<close>; the other errors come
  from the collaborators, \<open>NumericalError\<close> being the one of a surrogate whose covariance
  is singular and \<open>Raised\<close> standing for whatever else a user callable or the library
  raises.
\<close>

datatype error = ValueError | ShapeError | ValidationError | NumericalError | Raised string

subsection \<open>Collaborators imported by the module\<close>

text \<open>
  Modelled from the spec: \<^verbatim>\<open>GaussianProcess.utils.transform_data\<close> is not part of the
  sources. The spec (4.1) says it accepts a 1D sequence, promoted to shape (n, 1), or a 2D
  array-like, and fails with a ShapeError on ragged input (higher ranks are outside
  \<^typ>\<open>ndarray\<close>).
\<close>

fun transform_data :: "ndarray \<Rightarrow> error + real list list" where
  "transform_data (Array1D xs) = Inr (map (\<lambda>x. [x]) xs)"
| "transform_data (Array2D rows) =
     (if list_all (\<lambda>r. length r = length (hd rows)) rows then Inr rows else Inl ShapeError)"

text \<open>
  Modelled from the spec: \<^verbatim>\<open>GaussianProcess.utils.data_checker\<close> is not part of the
  sources. The spec (4.1) says it fails with a ValidationError when the sample counts of X
  and Y differ.
\<close>

definition data_checker :: "real list list \<Rightarrow> ndarray \<Rightarrow> error + unit" where
  "data_checker X Y = (if length X \<noteq> shape0 Y then Inl ValidationError else Inr ())"

text \<open>
  The regression class \<^verbatim>\<open>GPR\<close>, the default kernel and the progress bar of \<^verbatim>\<open>tqdm\<close> are
  libraries the module imports; they are parameters of the model. \<open>append_data\<close> mutates
  the regression object and may raise after doing so, hence it returns the object in both
  cases. \<open>bar_report\<close> stands for the formatting of the message and the three calls on
  the bar in one iteration (lines 132 to 135), given the location, the value and the
  current best; opening and closing the bar (line 112) are taken not to raise, and
  closing it lets an exception of the loop pass.
\<close>

record ('g, 'k) library =
  GPR :: "real list list \<Rightarrow> ndarray \<Rightarrow> real \<Rightarrow> 'k \<Rightarrow> error + 'g"
  append_data :: "'g \<Rightarrow> real list list \<Rightarrow> real \<Rightarrow> error option \<times> 'g"
  GaussianRBFKernel :: "real \<Rightarrow> real \<Rightarrow> 'k"
  bar_report :: "loc \<Rightarrow> real \<Rightarrow> loc option \<Rightarrow> real option \<Rightarrow> error option"

subsection \<open>The object\<close>

record ('g, 'k, 'a) BayesOpt =
  objectivefunction :: "pyvalue list \<Rightarrow> error + real"
  initial_X :: "real list list"
  function_unpack :: bool
  initial_Y :: ndarray
  maximize :: bool
  kernel :: 'k
  alpha :: real
  gpr :: 'g
  X_history :: "loc list"
  Y_history :: "real list"
  best_value :: "real option"
  best_params :: "loc option"
  acq :: 'a
  acq_optimizer :: "'g \<Rightarrow> 'a \<Rightarrow> int \<Rightarrow> error + loc \<times> real"

type_synonym terminate = "int \<Rightarrow> loc list \<Rightarrow> real list \<Rightarrow> error + bool"

subsection \<open>Construction\<close>

text \<open>
  The loop of \<^verbatim>\<open>__calculate_initialY\<close> over the rows of the initial locations (lines 82
  to 88): \<^verbatim>\<open>f(*iniX.T)\<close> hands the row over as one scalar per coordinate,
  \<^verbatim>\<open>f(np.atleast_2d(iniX))\<close> as one array of a single row.
\<close>

fun initialY_loop ::
  "(pyvalue list \<Rightarrow> error + real) \<Rightarrow> bool \<Rightarrow> real list list \<Rightarrow> real list \<Rightarrow> error + real list"
where
  "initialY_loop f unpack [] iniY = Inr iniY"
| "initialY_loop f unpack (iniX # rest) iniY =
     (if unpack then
        (case f (map Scalar iniX) of
           Inl e \<Rightarrow> Inl e
         | Inr y \<Rightarrow> initialY_loop f unpack rest (iniY @ [y]))
      else
        (case f [Array (Array2D [iniX])] of
           Inl e \<Rightarrow> Inl e
         | Inr y \<Rightarrow> initialY_loop f unpack rest (iniY @ [y])))"

definition calculate_initialY ::
  "(pyvalue list \<Rightarrow> error + real) \<Rightarrow> bool \<Rightarrow> real list list \<Rightarrow> ndarray option \<Rightarrow> error + ndarray"
where
  "calculate_initialY f unpack X initial_Y_arg =
     (case initial_Y_arg of
        None \<Rightarrow>
          (case initialY_loop f unpack X [] of
             Inl e \<Rightarrow> Inl e
           | Inr iniY \<Rightarrow> Inr (Array1D iniY))
      | Some Y \<Rightarrow>
          if shape0 Y \<noteq> length X then Inl ValueError
          else (case transform_data Y of Inl e \<Rightarrow> Inl e | Inr Y' \<Rightarrow> Inr (Array2D Y')))"

text \<open>\<^verbatim>\<open>__init__\<close>: either an exception, and then no object, or the new object.\<close>

definition BayesOpt_init ::
  "('g, 'k) library \<Rightarrow> (pyvalue list \<Rightarrow> error + real) \<Rightarrow> ndarray \<Rightarrow> 'a \<Rightarrow>
   ('g \<Rightarrow> 'a \<Rightarrow> int \<Rightarrow> error + loc \<times> real) \<Rightarrow> ndarray option \<Rightarrow> 'k option \<Rightarrow> real \<Rightarrow> bool \<Rightarrow> bool \<Rightarrow>
   error + ('g, 'k, 'a) BayesOpt"
where
  "BayesOpt_init lib f initial_input acq_fn acq_optim initial_Y_arg kernel_arg alpha_arg
       maximize_arg function_input_unpacking =
     (case transform_data initial_input of
        Inl e \<Rightarrow> Inl e
      | Inr X \<Rightarrow>
     (case calculate_initialY f function_input_unpacking X initial_Y_arg of
        Inl e \<Rightarrow> Inl e
      | Inr Y \<Rightarrow>
     (case data_checker X Y of
        Inl e \<Rightarrow> Inl e
      | Inr _ \<Rightarrow>
     (let k = (case kernel_arg of None \<Rightarrow> GaussianRBFKernel lib 1 1 | Some k' \<Rightarrow> k') in
      case GPR lib X Y alpha_arg k of
        Inl e \<Rightarrow> Inl e
      | Inr g \<Rightarrow>
          Inr \<lparr> objectivefunction = f, initial_X = X,
                function_unpack = function_input_unpacking, initial_Y = Y,
                maximize = maximize_arg, kernel = k, alpha = alpha_arg, gpr = g,
                X_history = [], Y_history = [], best_value = None, best_params = None,
                acq = acq_fn, acq_optimizer = acq_optim \<rparr>))))"

subsection \<open>The optimisation loop\<close>

text \<open>Lines 123 to 130: the best value and its location are replaced together.\<close>

definition update_best ::
  "('g, 'k, 'a) BayesOpt \<Rightarrow> loc \<Rightarrow> real \<Rightarrow> ('g, 'k, 'a) BayesOpt"
where
  "update_best self loc Y_obs =
     (if maximize self then
        (if (case best_value self of None \<Rightarrow> True | Some b \<Rightarrow> Y_obs > b)
         then self\<lparr>best_value := Some Y_obs, best_params := Some loc\<rparr> else self)
      else
        (if (case best_value self of None \<Rightarrow> True | Some b \<Rightarrow> Y_obs < b)
         then self\<lparr>best_value := Some Y_obs, best_params := Some loc\<rparr> else self))"

text \<open>How one pass through the loop body ends.\<close>

datatype signal = Next | Break | Raise error

text \<open>
  The loop body (lines 114 to 138). A call that raises ends the body there, with the
  object as the statements before it left it.
\<close>

definition iteration ::
  "('g, 'k) library \<Rightarrow> terminate option \<Rightarrow> int \<Rightarrow> ('g, 'k, 'a) BayesOpt \<Rightarrow>
   signal \<times> ('g, 'k, 'a) BayesOpt"
where
  "iteration lib terminate_function i self =
     (case acq_optimizer self (gpr self) (acq self) i of
        Inl e \<Rightarrow> (Raise e, self)
      | Inr (loc, acq_val) \<Rightarrow>
     (case (if function_unpack self then objectivefunction self (map Scalar loc)
            else objectivefunction self [Array (Array2D [loc])]) of
        Inl e \<Rightarrow> (Raise e, self)
      | Inr Y_obs \<Rightarrow>
     (case append_data lib (gpr self) [loc] Y_obs of
        (Some e, g) \<Rightarrow> (Raise e, self\<lparr>gpr := g\<rparr>)
      | (None, g) \<Rightarrow>
     (let self1 = self\<lparr>gpr := g, X_history := X_history self @ [loc],
                        Y_history := Y_history self @ [Y_obs]\<rparr>;
          self2 = update_best self1 loc Y_obs
      in case bar_report lib loc Y_obs (best_params self2) (best_value self2) of
           Some e \<Rightarrow> (Raise e, self2)
         | None \<Rightarrow>
             (case terminate_function of
                None \<Rightarrow> (Next, self2)
              | Some t \<Rightarrow>
                  (case t i (X_history self2) (Y_history self2) of
                     Inl e \<Rightarrow> (Raise e, self2)
                   | Inr stop \<Rightarrow> (if stop then (Break, self2) else (Next, self2))))))))"

text \<open>\<^verbatim>\<open>for i in range(max_iter)\<close>, over the indices still to run.\<close>

fun loop ::
  "('g, 'k) library \<Rightarrow> terminate option \<Rightarrow> int list \<Rightarrow> ('g, 'k, 'a) BayesOpt \<Rightarrow>
   error option \<times> ('g, 'k, 'a) BayesOpt"
where
  "loop lib terminate_function [] self = (None, self)"
| "loop lib terminate_function (i # rest) self =
     (case iteration lib terminate_function i self of
        (Next, self') \<Rightarrow> loop lib terminate_function rest self'
      | (Break, self') \<Rightarrow> (None, self')
      | (Raise e, self') \<Rightarrow> (Some e, self'))"

text \<open>
  \<^verbatim>\<open>run_optim\<close>: the exception it ends with, if any, and the object as the call leaves it.
\<close>

definition run_optim ::
  "('g, 'k) library \<Rightarrow> int \<Rightarrow> terminate option \<Rightarrow> ('g, 'k, 'a) BayesOpt \<Rightarrow>
   error option \<times> ('g, 'k, 'a) BayesOpt"
where
  "run_optim lib max_iter terminate_function self =
     loop lib terminate_function [0..max_iter - 1] self"

subsection \<open>Properties\<close>

definition param_history :: "('g, 'k, 'a) BayesOpt \<Rightarrow> loc list" where
  "param_history self = X_history self"

definition value_history :: "('g, 'k, 'a) BayesOpt \<Rightarrow> real list" where
  "value_history self = Y_history self"

definition n_trial :: "('g, 'k, 'a) BayesOpt \<Rightarrow> nat" where
  "n_trial self = length (Y_history self)"

subsection \<open>States an object can be in\<close>

text \<open>An object is built by the constructor and changed by calls of \<^verbatim>\<open>run_optim\<close> only.\<close>

inductive reachable :: "('g, 'k) library \<Rightarrow> ('g, 'k, 'a) BayesOpt \<Rightarrow> bool"
  for lib :: "('g, 'k) library"
where
  constructed:
    "BayesOpt_init lib f initial_input acq_fn acq_optim initial_Y_arg kernel_arg alpha_arg
       maximize_arg unpack = Inr self \<Longrightarrow> reachable lib self"
| ran:
    "reachable lib self \<Longrightarrow> run_optim lib max_iter terminate_function self = (r, self') \<Longrightarrow>
     reachable lib self'"

text \<open>
  Recording one observation without the calls around it: the history append of lines 119
  to 121 and the update of lines 123 to 130, and a list of observations in turn.
\<close>

definition record_obs ::
  "('g, 'k) library \<Rightarrow> ('g, 'k, 'a) BayesOpt \<Rightarrow> loc \<times> real \<Rightarrow> ('g, 'k, 'a) BayesOpt"
where
  "record_obs lib self ob =
     update_best
       (self\<lparr>gpr := snd (append_data lib (gpr self) [fst ob] (snd ob)),
             X_history := X_history self @ [fst ob],
             Y_history := Y_history self @ [snd ob]\<rparr>) (fst ob) (snd ob)"

definition replay ::
  "('g, 'k) library \<Rightarrow> ('g, 'k, 'a) BayesOpt \<Rightarrow> (loc \<times> real) list \<Rightarrow> ('g, 'k, 'a) BayesOpt"
where
  "replay lib self obs = foldl (record_obs lib) self obs"

text \<open>
  The call of the objective at a location, as lines 115 to 118 (and 84 to 88) write it.
\<close>

abbreviation objective_at :: "('g, 'k, 'a) BayesOpt \<Rightarrow> loc \<Rightarrow> error + real" where
  "objective_at self loc \<equiv>
     (if function_unpack self then objectivefunction self (map Scalar loc)
      else objectivefunction self [Array (Array2D [loc])])"

text \<open>
  How the loop body ends once the observation is recorded (lines 132 to 138): the progress
  report, then the termination predicate on the histories that hold the observation.
\<close>

definition after_record ::
  "('g, 'k) library \<Rightarrow> terminate option \<Rightarrow> int \<Rightarrow> loc \<Rightarrow> real \<Rightarrow> ('g, 'k, 'a) BayesOpt \<Rightarrow> signal"
where
  "after_record lib t i loc y self' =
     (case bar_report lib loc y (best_params self') (best_value self') of
        Some e \<Rightarrow> Raise e
      | None \<Rightarrow>
          (case t of
             None \<Rightarrow> Next
           | Some p \<Rightarrow>
               (case p i (X_history self') (Y_history self') of
                  Inl e \<Rightarrow> Raise e
                | Inr stop \<Rightarrow> if stop then Break else Next)))"

text \<open>The termination predicate is configured and returns true.\<close>

definition fired :: "terminate option \<Rightarrow> int \<Rightarrow> loc list \<Rightarrow> real list \<Rightarrow> bool" where
  "fired t i X Y = (case t of None \<Rightarrow> False | Some p \<Rightarrow> p i X Y = Inr True)"

text \<open>
  The best value and its location are those of the first extremal entry of the history
  (the largest value when maximising, the smallest otherwise), and unset while it is empty.
\<close>

definition history_best :: "('g, 'k, 'a) BayesOpt \<Rightarrow> bool" where
  "history_best s \<longleftrightarrow>
     length (X_history s) = length (Y_history s) \<and>
     (if Y_history s = [] then best_value s = None \<and> best_params s = None
      else \<exists>j<length (Y_history s).
             best_value s = Some (Y_history s ! j) \<and> best_params s = Some (X_history s ! j) \<and>
             (\<forall>k<length (Y_history s).
                if maximize s then Y_history s ! k \<le> Y_history s ! j
                else Y_history s ! j \<le> Y_history s ! k) \<and>
             (\<forall>k<j. Y_history s ! k \<noteq> Y_history s ! j))"

text \<open>
  Modelled from the spec: the class \<^verbatim>\<open>GaussianProcess.GPR\<close> is not part of the sources.
  The spec (3, 4.2) says the surrogate owns the full training set (the initial batch and
  all appended observations), a kernel and a regularisation scalar; that
  \<^verbatim>\<open>append_data\<close> incorporates one new observation into the training set without
  discarding prior state; and that fitting or updating fails with a numerical error when
  the covariance of the training locations, with the regularisation added, is singular
  beyond tolerance. The kernel arithmetic is out of the spec's scope, so the test for a
  singular covariance is a parameter; an update that fails leaves the training set as it
  was, as the invariant of the spec (3) asks.
\<close>

record 'k gp_model =
  X_train :: "real list list"
  Y_train :: "real list"
  gp_kernel :: 'k
  gp_alpha :: real

definition GPR_new ::
  "('k \<Rightarrow> real \<Rightarrow> real list list \<Rightarrow> bool) \<Rightarrow> real list list \<Rightarrow> ndarray \<Rightarrow> real \<Rightarrow> 'k \<Rightarrow>
   error + 'k gp_model"
where
  "GPR_new singular X Y al k =
     (if singular k al X then Inl NumericalError
      else Inr \<lparr> X_train = X, Y_train = values_of Y, gp_kernel = k, gp_alpha = al \<rparr>)"

definition GPR_append_data ::
  "('k \<Rightarrow> real \<Rightarrow> real list list \<Rightarrow> bool) \<Rightarrow> 'k gp_model \<Rightarrow> real list list \<Rightarrow> real \<Rightarrow>
   error option \<times> 'k gp_model"
where
  "GPR_append_data singular g X y =
     (if singular (gp_kernel g) (gp_alpha g) (X_train g @ X) then (Some NumericalError, g)
      else (None, g\<lparr>X_train := X_train g @ X, Y_train := Y_train g @ [y]\<rparr>))"

text \<open>
  Two tests for a singular covariance: one that never finds it, and one that finds it once
  there are four training locations.
\<close>

definition never_singular :: "real \<times> real \<Rightarrow> real \<Rightarrow> real list list \<Rightarrow> bool" where
  "never_singular k al X = False"


text \<open>A small instance: one coordinate, the objective \<open>(x - 3)\<^sup>2\<close> taking the coordinate
  as its only positional argument, and an acquisition optimiser that proposes the number
  of training points of the surrogate it is handed.\<close>

definition demo_f :: "pyvalue list \<Rightarrow> error + real" where
  "demo_f args = (case args of [Scalar x] \<Rightarrow> Inr ((x - 3)\<^sup>2) | _ \<Rightarrow> Inl (Raised ''TypeError''))"

definition demo_acq_optim :: "(real \<times> real) gp_model \<Rightarrow> unit \<Rightarrow> int \<Rightarrow> error + loc \<times> real" where
  "demo_acq_optim g a i = Inr ([real (length (X_train g))], 0)"

definition demo_lib :: "((real \<times> real) gp_model, real \<times> real) library" where
  "demo_lib = \<lparr> GPR = GPR_new never_singular, append_data = GPR_append_data never_singular,
                GaussianRBFKernel = (\<lambda>h a. (h, a)), bar_report = (\<lambda>loc y bp bv. None) \<rparr>"

definition demo_gpr :: "real list list \<Rightarrow> real list \<Rightarrow> (real \<times> real) gp_model" where
  "demo_gpr X Y = \<lparr> X_train = X, Y_train = Y, gp_kernel = (1, 1), gp_alpha = 1 / 1000000 \<rparr>"

text \<open>
  The object of the instance with the given direction flag, initial batch, histories and
  best state; its surrogate holds the initial batch followed by the histories.
\<close>

definition demo_obj ::
  "bool \<Rightarrow> real list list \<Rightarrow> real list \<Rightarrow> loc list \<Rightarrow> real list \<Rightarrow> real option \<Rightarrow> loc option \<Rightarrow>
   ((real \<times> real) gp_model, real \<times> real, unit) BayesOpt"
where
  "demo_obj mx X Y XH YH bv bp =
     \<lparr> objectivefunction = demo_f, initial_X = X, function_unpack = True,
       initial_Y = Array1D Y, maximize = mx, kernel = (1, 1), alpha = 1 / 1000000,
       gpr = demo_gpr (X @ XH) (Y @ YH), X_history = XH, Y_history = YH,
       best_value = bv, best_params = bp, acq = (), acq_optimizer = demo_acq_optim \<rparr>"

text \<open>
  Termination predicates of the instance: one that returns true once some value of the
  history is below a tenth, and one that returns true at once.
\<close>

definition demo_stop :: terminate where
  "demo_stop i X Y = Inr (list_ex (\<lambda>y. y < 1 / 10) Y)"

definition always_stop :: terminate where
  "always_stop i X Y = Inr True"

text \<open>A regression constructor that always raises, and the library with it.\<close>

definition failing_GPR ::
  "real list list \<Rightarrow> ndarray \<Rightarrow> real \<Rightarrow> real \<times> real \<Rightarrow> error + (real \<times> real) gp_model"
where
  "failing_GPR X Y al k = Inl (Raised ''LinAlgError'')"

definition no_fit_lib :: "((real \<times> real) gp_model, real \<times> real) library" where
  "no_fit_lib = demo_lib\<lparr>GPR := failing_GPR\<rparr>"

text \<open>Five initial locations of two coordinates each.\<close>

definition five_by_two :: ndarray where
  "five_by_two = Array2D [[0, 0], [1, 1], [2, 2], [3, 3], [4, 4]]"





text \<open>
  Collaborators of the instance that raise: an acquisition optimiser that fails at
  iteration 1, an objective that fails at the location \<open>[2]\<close>, a surrogate update that
  fails on the value 1, and a termination predicate that fails at iteration 1.
\<close>

definition acq_optim_raising :: "(real \<times> real) gp_model \<Rightarrow> unit \<Rightarrow> int \<Rightarrow> error + loc \<times> real" where
  "acq_optim_raising g a i =
     (if i = 1 then Inl (Raised ''acq_optim'') else Inr ([real (length (X_train g))], 0))"

definition f_raising :: "pyvalue list \<Rightarrow> error + real" where
  "f_raising args =
     (case args of [Scalar x] \<Rightarrow> if x = 2 then Inl (Raised ''objective'') else Inr ((x - 3)\<^sup>2)
      | _ \<Rightarrow> Inl (Raised ''TypeError''))"

definition append_data_raising ::
  "(real \<times> real) gp_model \<Rightarrow> real list list \<Rightarrow> real \<Rightarrow> error option \<times> (real \<times> real) gp_model"
where
  "append_data_raising g X y =
     (if y = 1 then (Some (Raised ''LinAlgError''), g\<lparr>X_train := X_train g @ X\<rparr>)
      else GPR_append_data never_singular g X y)"

definition stop_raising :: terminate where
  "stop_raising i X Y = (if i = 1 then Inl (Raised ''terminate_function'') else Inr False)"

text \<open>A progress bar that raises on every report, and the library with it.\<close>

definition bar_raising :: "loc \<Rightarrow> real \<Rightarrow> loc option \<Rightarrow> real option \<Rightarrow> error option" where
  "bar_raising loc y bp bv = Some (Raised ''tqdm'')"

definition bar_raising_lib :: "((real \<times> real) gp_model, real \<times> real) library" where
  "bar_raising_lib = demo_lib\<lparr>bar_report := bar_raising\<rparr>"

text \<open>The objects that calls of \<^verbatim>\<open>run_optim\<close>, however they end, make of a given object.\<close>

inductive reachable_from ::
  "('g, 'k) library \<Rightarrow> ('g, 'k, 'a) BayesOpt \<Rightarrow> ('g, 'k, 'a) BayesOpt \<Rightarrow> bool"
  for lib :: "('g, 'k) library" and s0 :: "('g, 'k, 'a) BayesOpt"
where
  unchanged: "reachable_from lib s0 s0"
| ran_again:
    "reachable_from lib s0 s \<Longrightarrow> run_optim lib max_iter terminate_function s = (r, s') \<Longrightarrow>
     reachable_from lib s0 s'"



section \<open>The loop body and the loop\<close>

lemma update_best_gpr: "update_best (s\<lparr>gpr := g\<rparr>) loc y = (update_best s loc y)\<lparr>gpr := g\<rparr>"
  by (simp add: update_best_def split: option.splits)

lemma iteration_acq_fail:
  "acq_optimizer s (gpr s) (acq s) i = Inl e \<Longrightarrow> iteration lib t i s = (Raise e, s)"
  by (simp add: iteration_def)

lemma iteration_obj_fail:
  "acq_optimizer s (gpr s) (acq s) i = Inr (loc, a) \<Longrightarrow> objective_at s loc = Inl e \<Longrightarrow>
   iteration lib t i s = (Raise e, s)"
  by (simp add: iteration_def)

lemma iteration_gp_fail:
  "acq_optimizer s (gpr s) (acq s) i = Inr (loc, a) \<Longrightarrow> objective_at s loc = Inr y \<Longrightarrow>
   append_data lib (gpr s) [loc] y = (Some e, g) \<Longrightarrow>
   iteration lib t i s = (Raise e, s\<lparr>gpr := g\<rparr>)"
  by (simp add: iteration_def)

lemma iteration_recorded:
  "acq_optimizer s (gpr s) (acq s) i = Inr (loc, a) \<Longrightarrow> objective_at s loc = Inr y \<Longrightarrow>
   fst (append_data lib (gpr s) [loc] y) = None \<Longrightarrow>
   iteration lib t i s =
     (after_record lib t i loc y (record_obs lib s (loc, y)), record_obs lib s (loc, y))"
  by (cases "append_data lib (gpr s) [loc] y")
     (simp add: iteration_def after_record_def record_obs_def Let_def
           split: option.split sum.split)

lemma iteration_cases:
  assumes "iteration lib t i s = (sig, s')"
  obtains
    (acq_fail) e where "acq_optimizer s (gpr s) (acq s) i = Inl e" "sig = Raise e" "s' = s"
  | (obj_fail) loc a e where "acq_optimizer s (gpr s) (acq s) i = Inr (loc, a)"
      "objective_at s loc = Inl e" "sig = Raise e" "s' = s"
  | (gp_fail) loc a y e g where "acq_optimizer s (gpr s) (acq s) i = Inr (loc, a)"
      "objective_at s loc = Inr y" "append_data lib (gpr s) [loc] y = (Some e, g)"
      "sig = Raise e" "s' = s\<lparr>gpr := g\<rparr>"
  | (recorded) loc a y where "acq_optimizer s (gpr s) (acq s) i = Inr (loc, a)"
      "objective_at s loc = Inr y" "fst (append_data lib (gpr s) [loc] y) = None"
      "s' = record_obs lib s (loc, y)" "sig = after_record lib t i loc y s'"
proof (cases "acq_optimizer s (gpr s) (acq s) i")
  case (Inl e)
  from assms iteration_acq_fail[OF Inl, of lib t] have "sig = Raise e" "s' = s" by simp_all
  then show ?thesis by (rule acq_fail[OF Inl])
next
  case (Inr p)
  obtain loc a where p: "p = (loc, a)" by (cases p)
  note A = Inr[unfolded p]
  show ?thesis
  proof (cases "objective_at s loc")
    case (Inl e)
    from assms iteration_obj_fail[OF A Inl, of lib t] have "sig = Raise e" "s' = s"
      by simp_all
    then show ?thesis by (rule obj_fail[OF A Inl])
  next
    case (Inr y)
    note B = Inr
    obtain r g where C: "append_data lib (gpr s) [loc] y = (r, g)"
      by (cases "append_data lib (gpr s) [loc] y")
    show ?thesis
    proof (cases r)
      case None
      with C have D: "fst (append_data lib (gpr s) [loc] y) = None" by simp
      from assms iteration_recorded[OF A B D, of t]
      have "s' = record_obs lib s (loc, y)" "sig = after_record lib t i loc y s'"
        by auto
      then show ?thesis by (rule recorded[OF A B D])
    next
      case (Some e)
      from assms iteration_gp_fail[OF A B C[unfolded Some], of t]
      have "sig = Raise e" "s' = s\<lparr>gpr := g\<rparr>" by simp_all
      then show ?thesis by (rule gp_fail[OF A B C[unfolded Some]])
    qed
  qed
qed

section \<open>Recording observations\<close>

lemma record_obs_static [simp]:
  "objectivefunction (record_obs lib s ob) = objectivefunction s"
  "initial_X (record_obs lib s ob) = initial_X s"
  "function_unpack (record_obs lib s ob) = function_unpack s"
  "initial_Y (record_obs lib s ob) = initial_Y s"
  "maximize (record_obs lib s ob) = maximize s"
  "kernel (record_obs lib s ob) = kernel s"
  "alpha (record_obs lib s ob) = alpha s"
  "acq (record_obs lib s ob) = acq s"
  "acq_optimizer (record_obs lib s ob) = acq_optimizer s"
  by (simp_all add: record_obs_def update_best_def)

lemma record_obs_dynamic [simp]:
  "X_history (record_obs lib s ob) = X_history s @ [fst ob]"
  "Y_history (record_obs lib s ob) = Y_history s @ [snd ob]"
  "gpr (record_obs lib s ob) = snd (append_data lib (gpr s) [fst ob] (snd ob))"
  by (simp_all add: record_obs_def update_best_def)

lemma replay_Nil [simp]: "replay lib s [] = s"
  by (simp add: replay_def)

lemma replay_Cons [simp]: "replay lib s (ob # obs) = replay lib (record_obs lib s ob) obs"
  by (simp add: replay_def)


lemma replay_static [simp]:
  "objectivefunction (replay lib s obs) = objectivefunction s"
  "initial_X (replay lib s obs) = initial_X s"
  "function_unpack (replay lib s obs) = function_unpack s"
  "initial_Y (replay lib s obs) = initial_Y s"
  "maximize (replay lib s obs) = maximize s"
  "kernel (replay lib s obs) = kernel s"
  "alpha (replay lib s obs) = alpha s"
  "acq (replay lib s obs) = acq s"
  "acq_optimizer (replay lib s obs) = acq_optimizer s"
  by (induction obs arbitrary: s; simp)+

lemma replay_history [simp]:
  "X_history (replay lib s obs) = X_history s @ map fst obs"
  "Y_history (replay lib s obs) = Y_history s @ map snd obs"
  by (induction obs arbitrary: s; simp)+

section \<open>What a call of the loop leaves\<close>

lemma after_record_Next: "after_record lib t i loc y s = Next \<Longrightarrow> \<not> fired t i (X_history s) (Y_history s)"
  by (auto simp: after_record_def fired_def split: option.splits sum.splits if_splits)

lemma after_record_Break: "after_record lib t i loc y s = Break \<Longrightarrow> fired t i (X_history s) (Y_history s)"
  by (auto simp: after_record_def fired_def split: option.splits sum.splits if_splits)

lemma loop_stop:
  "loop lib t is s = (None, s') \<Longrightarrow>
   \<exists>obs. length obs \<le> length is \<and> s' = replay lib s obs \<and>
     (\<forall>j. Suc j < length obs \<longrightarrow>
        \<not> fired t (is ! j) (X_history (replay lib s (take (Suc j) obs)))
                          (Y_history (replay lib s (take (Suc j) obs)))) \<and>
     (length obs < length is \<longrightarrow>
        obs \<noteq> [] \<and> fired t (is ! (length obs - 1)) (X_history s') (Y_history s'))"
proof (induction "is" arbitrary: s)
  case Nil
  then show ?case by (intro exI[of _ "[]"]) simp
next
  case (Cons i rest)
  obtain sg s1 where it: "iteration lib t i s = (sg, s1)"
    by (cases "iteration lib t i s")
  from it show ?case
  proof (cases rule: iteration_cases)
    case (acq_fail e)
    with Cons.prems it show ?thesis by simp
  next
    case (obj_fail loc a e)
    with Cons.prems it show ?thesis by simp
  next
    case (gp_fail loc a y e g)
    with Cons.prems it show ?thesis by simp
  next
    case (recorded loc a y)
    show ?thesis
    proof (cases sg)
      case Next
      with Cons.prems it have "loop lib t rest s1 = (None, s')" by simp
      from Cons.IH[OF this] obtain obs where
        len: "length obs \<le> length rest" and s': "s' = replay lib s1 obs" and
        nf: "\<And>j. Suc j < length obs \<Longrightarrow>
               \<not> fired t (rest ! j) (X_history (replay lib s1 (take (Suc j) obs)))
                                   (Y_history (replay lib s1 (take (Suc j) obs)))" and
        fr: "length obs < length rest \<Longrightarrow>
               obs \<noteq> [] \<and> fired t (rest ! (length obs - 1)) (X_history s') (Y_history s')"
        by blast
      from recorded(5) Next have "after_record lib t i loc y s1 = Next" by simp
      then have nf0: "\<not> fired t i (X_history s1) (Y_history s1)"
        by (rule after_record_Next)
      let ?obs = "(loc, y) # obs"
      have a: "length ?obs \<le> length (i # rest)" using len by simp
      have b: "s' = replay lib s ?obs" using s' recorded(4) by simp
      have c: "\<not> fired t ((i # rest) ! j) (X_history (replay lib s (take (Suc j) ?obs)))
                                   (Y_history (replay lib s (take (Suc j) ?obs)))"
        if "Suc j < length ?obs" for j
      proof (cases j)
        case 0
        then show ?thesis using nf0 recorded(4) by simp
      next
        case (Suc j')
        with that have "Suc j' < length obs" by simp
        from nf[OF this] show ?thesis using Suc recorded(4) by simp
      qed
      have d: "?obs \<noteq> [] \<and> fired t ((i # rest) ! (length ?obs - 1)) (X_history s') (Y_history s')"
        if "length ?obs < length (i # rest)"
      proof -
        from that have lt: "length obs < length rest" by simp
        from fr[OF lt] have ne: "obs \<noteq> []" and f: "fired t (rest ! (length obs - 1)) (X_history s') (Y_history s')"
          by simp_all
        from ne have "(i # rest) ! (length ?obs - 1) = rest ! (length obs - 1)"
          by (cases obs) simp_all
        with f show ?thesis by simp
      qed
      from a b c d show ?thesis by blast
    next
      case Break
      with Cons.prems it have s': "s' = s1" by simp
      from recorded(5) Break have "after_record lib t i loc y s1 = Break" by simp
      then have f: "fired t i (X_history s1) (Y_history s1)"
        by (rule after_record_Break)
      show ?thesis
        by (intro exI[of _ "[(loc, y)]"]) (use s' f recorded(4) in simp)
    next
      case (Raise e)
      with Cons.prems it show ?thesis by simp
    qed
  qed
qed

lemma replay_gpr_update [simp]: "replay lib s [] \<lparr>gpr := gpr s\<rparr> = s"
  by simp

lemma loop_trace:
  "loop lib t is s = (r, s') \<Longrightarrow>
   \<exists>obs g. length obs \<le> length is \<and> s' = (replay lib s obs)\<lparr>gpr := g\<rparr> \<and>
     (r = None \<or> (\<forall>g X y. fst (append_data lib g X y) = None) \<longrightarrow>
        s' = replay lib s obs) \<and>
     (\<forall>j<length obs. \<exists>a.
        acq_optimizer s (gpr (replay lib s (take j obs))) (acq s) (is ! j) = Inr (fst (obs ! j), a))"
proof (induction "is" arbitrary: s)
  case Nil
  then show ?case by (intro exI[of _ "[]"] exI[of _ "gpr s"]) simp
next
  case (Cons i rest)
  obtain sg s1 where it: "iteration lib t i s = (sg, s1)"
    by (cases "iteration lib t i s")
  from it show ?case
  proof (cases rule: iteration_cases)
    case (acq_fail e)
    with Cons.prems it show ?thesis by (intro exI[of _ "[]"] exI[of _ "gpr s"]) auto
  next
    case (obj_fail loc a e)
    with Cons.prems it show ?thesis by (intro exI[of _ "[]"] exI[of _ "gpr s"]) auto
  next
    case (gp_fail loc a y e g)
    from gp_fail(3) have "fst (append_data lib (gpr s) [loc] y) \<noteq> None" by simp
    then have "\<not> (\<forall>g X y. fst (append_data lib g X y) = None)" by auto
    with gp_fail Cons.prems it show ?thesis by (intro exI[of _ "[]"] exI[of _ g]) auto
  next
    case (recorded loc a y)
    have one: "\<exists>obs g. length obs \<le> length (i # rest) \<and> s1 = (replay lib s obs)\<lparr>gpr := g\<rparr> \<and>
        s1 = replay lib s obs \<and>
       (\<forall>j<length obs. \<exists>a.
        acq_optimizer s (gpr (replay lib s (take j obs))) (acq s) ((i # rest) ! j) = Inr (fst (obs ! j), a))"
      by (intro exI[of _ "[(loc, y)]"] exI[of _ "gpr s1"]) (use recorded in simp)
    show ?thesis
    proof (cases sg)
      case Next
      with Cons.prems it have "loop lib t rest s1 = (r, s')" by simp
      from Cons.IH[OF this] obtain obs g where
        len: "length obs \<le> length rest" and s': "s' = (replay lib s1 obs)\<lparr>gpr := g\<rparr>" and
        ok: "r = None \<or> (\<forall>g X y. fst (append_data lib g X y) = None) \<longrightarrow>
              s' = replay lib s1 obs" and
        aq: "\<And>j. j < length obs \<Longrightarrow> \<exists>a.
               acq_optimizer s1 (gpr (replay lib s1 (take j obs))) (acq s1) (rest ! j) = Inr (fst (obs ! j), a)"
        by blast
      let ?obs = "(loc, y) # obs"
      have a: "length ?obs \<le> length (i # rest)" using len by simp
      have b: "s' = (replay lib s ?obs)\<lparr>gpr := g\<rparr>" using s' recorded(4) by simp
      have b': "r = None \<or> (\<forall>g X y. fst (append_data lib g X y) = None) \<longrightarrow>
                  s' = replay lib s ?obs" using ok recorded(4) by simp
      have c: "\<exists>a. acq_optimizer s (gpr (replay lib s (take j ?obs))) (acq s) ((i # rest) ! j)
                 = Inr (fst (?obs ! j), a)"
        if "j < length ?obs" for j
      proof (cases j)
        case 0
        then show ?thesis using recorded(1) by simp
      next
        case (Suc j')
        with that have "j' < length obs" by simp
        from aq[OF this] show ?thesis using Suc recorded(4) by simp
      qed
      from a b b' c show ?thesis by blast
    next
      case Break
      with Cons.prems it have "s' = s1" "r = None" by simp_all
      with one show ?thesis by blast
    next
      case (Raise e)
      with Cons.prems it have "s' = s1" by simp
      with one show ?thesis by blast
    qed
  qed
qed

section \<open>The best state follows the history\<close>

lemma update_best_fields [simp]:
  "X_history (update_best s loc y) = X_history s"
  "Y_history (update_best s loc y) = Y_history s"
  "maximize (update_best s loc y) = maximize s"
  "gpr (update_best s loc y) = gpr s"
  by (simp_all add: update_best_def)

lemma record_obs_best:
  "best_value (record_obs lib s ob) =
     (if (case best_value s of None \<Rightarrow> True
          | Some b \<Rightarrow> if maximize s then b < snd ob else snd ob < b)
      then Some (snd ob) else best_value s)"
  "best_params (record_obs lib s ob) =
     (if (case best_value s of None \<Rightarrow> True
          | Some b \<Rightarrow> if maximize s then b < snd ob else snd ob < b)
      then Some (fst ob) else best_params s)"
  by (simp_all add: record_obs_def update_best_def split: option.splits)

lemma history_best_record:
  assumes "history_best s"
  shows "history_best (record_obs lib s ob)"
proof (cases "Y_history s = []")
  case True
  with assms show ?thesis
    by (simp add: history_best_def record_obs_best)
next
  case False
  let ?n = "length (Y_history s)"
  from assms False obtain j where len: "length (X_history s) = ?n" and j: "j < ?n"
    and bv: "best_value s = Some (Y_history s ! j)" and bp: "best_params s = Some (X_history s ! j)"
    and ext: "\<And>k. k < ?n \<Longrightarrow> if maximize s then Y_history s ! k \<le> Y_history s ! j
                else Y_history s ! j \<le> Y_history s ! k"
    and fst: "\<And>k. k < j \<Longrightarrow> Y_history s ! k \<noteq> Y_history s ! j"
    unfolding history_best_def by auto
  let ?b = "Y_history s ! j"
  show ?thesis
  proof (cases "if maximize s then ?b < snd ob else snd ob < ?b")
    case True
    have "\<exists>j'<Suc ?n. best_value (record_obs lib s ob) = Some ((Y_history s @ [snd ob]) ! j') \<and>
            best_params (record_obs lib s ob) = Some ((X_history s @ [fst ob]) ! j') \<and>
            (\<forall>k<Suc ?n. if maximize s then (Y_history s @ [snd ob]) ! k \<le> (Y_history s @ [snd ob]) ! j'
                else (Y_history s @ [snd ob]) ! j' \<le> (Y_history s @ [snd ob]) ! k) \<and>
            (\<forall>k<j'. (Y_history s @ [snd ob]) ! k \<noteq> (Y_history s @ [snd ob]) ! j')"
    proof (intro exI[of _ ?n] conjI allI impI)
      show "?n < Suc ?n" by simp
      show "best_value (record_obs lib s ob) = Some ((Y_history s @ [snd ob]) ! ?n)"
        using True bv by (simp add: record_obs_best)
      show "best_params (record_obs lib s ob) = Some ((X_history s @ [fst ob]) ! ?n)"
        using True bv len[symmetric] by (simp add: record_obs_best)
    next
      fix k assume "k < Suc ?n"
      then consider "k < ?n" | "k = ?n" by linarith
      then show "if maximize s then (Y_history s @ [snd ob]) ! k \<le> (Y_history s @ [snd ob]) ! ?n
                else (Y_history s @ [snd ob]) ! ?n \<le> (Y_history s @ [snd ob]) ! k"
      proof cases
        case 1
        with ext[OF 1] True show ?thesis by (auto simp: nth_append split: if_splits)
      next
        case 2
        then show ?thesis by simp
      qed
    next
      fix k assume k: "k < ?n"
      with ext[OF k] True show "(Y_history s @ [snd ob]) ! k \<noteq> (Y_history s @ [snd ob]) ! ?n"
        by (auto simp: nth_append split: if_splits)
    qed
    with len show ?thesis by (simp add: history_best_def split del: if_split cong: if_cong)
  next
    case F: False
    have "\<exists>j'<Suc ?n. best_value (record_obs lib s ob) = Some ((Y_history s @ [snd ob]) ! j') \<and>
            best_params (record_obs lib s ob) = Some ((X_history s @ [fst ob]) ! j') \<and>
            (\<forall>k<Suc ?n. if maximize s then (Y_history s @ [snd ob]) ! k \<le> (Y_history s @ [snd ob]) ! j'
                else (Y_history s @ [snd ob]) ! j' \<le> (Y_history s @ [snd ob]) ! k) \<and>
            (\<forall>k<j'. (Y_history s @ [snd ob]) ! k \<noteq> (Y_history s @ [snd ob]) ! j')"
    proof (intro exI[of _ j] conjI allI impI)
      show "j < Suc ?n" using j by simp
      show "best_value (record_obs lib s ob) = Some ((Y_history s @ [snd ob]) ! j)"
        using F bv j by (simp add: record_obs_best nth_append)
      show "best_params (record_obs lib s ob) = Some ((X_history s @ [fst ob]) ! j)"
        using F bv bp j len by (simp add: record_obs_best nth_append)
    next
      fix k assume "k < Suc ?n"
      then consider "k < ?n" | "k = ?n" by linarith
      then show "if maximize s then (Y_history s @ [snd ob]) ! k \<le> (Y_history s @ [snd ob]) ! j
                else (Y_history s @ [snd ob]) ! j \<le> (Y_history s @ [snd ob]) ! k"
      proof cases
        case 1
        with ext[OF 1] j show ?thesis by (auto simp: nth_append split: if_splits)
      next
        case 2
        with F j show ?thesis by (auto simp: nth_append split: if_splits)
      qed
    next
      fix k assume k: "k < j"
      with fst[OF k] j show "(Y_history s @ [snd ob]) ! k \<noteq> (Y_history s @ [snd ob]) ! j"
        by (simp add: nth_append)
    qed
    with len show ?thesis by (simp add: history_best_def split del: if_split cong: if_cong)
  qed
qed

lemma history_best_replay: "history_best s \<Longrightarrow> history_best (replay lib s obs)"
  by (induction obs arbitrary: s) (simp_all add: history_best_record)

lemma history_best_gpr: "history_best (s\<lparr>gpr := g\<rparr>) = history_best s"
  by (simp add: history_best_def)

lemma BayesOpt_init_fields:
  assumes "BayesOpt_init lib f X a ao Y k al mx u = Inr s"
  shows "X_history s = []" "Y_history s = []" "best_value s = None" "best_params s = None"
    "maximize s = mx" "function_unpack s = u" "objectivefunction s = f" "acq_optimizer s = ao"
  using assms
  by (auto simp: BayesOpt_init_def Let_def split: sum.splits)

lemma history_best_init:
  "BayesOpt_init lib f X a ao Y k al mx u = Inr s \<Longrightarrow> history_best s"
  by (simp add: history_best_def BayesOpt_init_fields)

lemma history_best_loop:
  assumes "history_best s" "loop lib t is s = (r, s')"
  shows "history_best s'"
proof -
  from loop_trace[OF assms(2)] obtain obs g where "s' = (replay lib s obs)\<lparr>gpr := g\<rparr>"
    by blast
  with assms(1) show ?thesis by (simp add: history_best_gpr history_best_replay)
qed

lemma reachable_history_best: "reachable lib s \<Longrightarrow> history_best s"
proof (induction rule: reachable.induct)
  case (constructed f initial_input acq_fn acq_optim initial_Y_arg kernel_arg alpha_arg maximize_arg unpack self)
  then show ?case by (rule history_best_init)
next
  case (ran self max_iter terminate_function r self')
  then show ?case by (auto simp: run_optim_def intro: history_best_loop)
qed

section \<open>The instance\<close>

lemmas demo_defs =
  BayesOpt_init_def calculate_initialY_def data_checker_def run_optim_def iteration_def
  update_best_def Let_def GPR_new_def GPR_append_data_def never_singular_def
  demo_lib_def demo_f_def demo_acq_optim_def demo_gpr_def demo_obj_def

lemma demo_init:
  "BayesOpt_init demo_lib demo_f (Array1D [3]) () demo_acq_optim None None (1 / 1000000) False True
     = Inr (demo_obj False [[3]] [0] [] [] None None)"
  by (simp add: demo_defs)

lemma demo_run1:
  "run_optim demo_lib 1 None (demo_obj False [[3]] [0] [] [] None None)
     = (None, demo_obj False [[3]] [0] [[1]] [4] (Some 4) (Some [1]))"
  by (simp add: demo_defs)

lemma demo_init2:
  "BayesOpt_init demo_lib demo_f (Array1D [0, 1]) () demo_acq_optim None None (1 / 1000000) mx True
     = Inr (demo_obj mx [[0], [1]] [9, 4] [] [] None None)"
  by (simp add: demo_defs)

lemma demo_run3:
  "run_optim demo_lib 3 None (demo_obj False [[0], [1]] [9, 4] [] [] None None)
     = (None, demo_obj False [[0], [1]] [9, 4] [[2], [3], [4]] [1, 0, 1] (Some 0) (Some [3]))"
  by (simp add: demo_defs upto_rec1)

lemma demo_run3_max:
  "run_optim demo_lib 3 None (demo_obj True [[0], [1]] [9, 4] [] [] None None)
     = (None, demo_obj True [[0], [1]] [9, 4] [[2], [3], [4]] [1, 0, 1] (Some 1) (Some [2]))"
  by (simp add: demo_defs upto_rec1)

lemma demo_reachable1: "reachable demo_lib (demo_obj False [[3]] [0] [[1]] [4] (Some 4) (Some [1]))"
  by (rule reachable.ran[OF reachable.constructed[OF demo_init] demo_run1])

lemma demo_reachable3:
  "reachable demo_lib (demo_obj False [[0], [1]] [9, 4] [[2], [3], [4]] [1, 0, 1] (Some 0) (Some [3]))"
  by (rule reachable.ran[OF reachable.constructed[OF demo_init2] demo_run3])

lemma demo_reachable3_max:
  "reachable demo_lib (demo_obj True [[0], [1]] [9, 4] [[2], [3], [4]] [1, 0, 1] (Some 1) (Some [2]))"
  by (rule reachable.ran[OF reachable.constructed[OF demo_init2] demo_run3_max])

section \<open>The best state and the history\<close>

lemma extremum_Max: "j < length ys \<Longrightarrow> \<forall>k<length ys. ys ! k \<le> ys ! j \<Longrightarrow> Max (set ys) = (ys ! j :: real)"
  by (intro Max_eqI) (auto simp: in_set_conv_nth)

lemma extremum_Min: "j < length ys \<Longrightarrow> \<forall>k<length ys. ys ! j \<le> ys ! k \<Longrightarrow> Min (set ys) = (ys ! j :: real)"
  by (intro Min_eqI) (auto simp: in_set_conv_nth)

text \<open>
  C1 (amended). For every object the constructor built and any calls of \<^verbatim>\<open>run_optim\<close>
  changed, whatever their outcome: the two histories have the same length; while the
  history is empty the best value and the best location are unset; and once it is not, the
  best value is the maximum (when maximising) or the minimum (otherwise) of the values in
  the history alone, the initial batch not being looked at, and the best location is the
  one recorded with the first entry that has this value.
\<close>

theorem best_is_extremum_of_history:
  assumes "reachable lib s"
  shows "length (param_history s) = length (value_history s) \<and>
    (value_history s = [] \<longrightarrow> best_value s = None \<and> best_params s = None) \<and>
    (value_history s \<noteq> [] \<longrightarrow>
       best_value s = Some (if maximize s then Max (set (value_history s))
                            else Min (set (value_history s))) \<and>
       (\<exists>j<n_trial s. best_value s = Some (value_history s ! j) \<and>
          best_params s = Some (param_history s ! j) \<and>
          (\<forall>k<j. value_history s ! k \<noteq> value_history s ! j)))"
proof -
  from assms have hb: "history_best s" by (rule reachable_history_best)
  then have len: "length (X_history s) = length (Y_history s)"
    by (simp add: history_best_def)
  have empty: "best_value s = None \<and> best_params s = None" if "Y_history s = []"
    using hb that by (simp add: history_best_def)
  have full: "best_value s = Some (if maximize s then Max (set (Y_history s))
                            else Min (set (Y_history s))) \<and>
       (\<exists>j<length (Y_history s). best_value s = Some (Y_history s ! j) \<and>
          best_params s = Some (X_history s ! j) \<and>
          (\<forall>k<j. Y_history s ! k \<noteq> Y_history s ! j))" if ne: "Y_history s \<noteq> []"
  proof -
    from hb ne obtain j where j: "j < length (Y_history s)"
      and bv: "best_value s = Some (Y_history s ! j)"
      and bp: "best_params s = Some (X_history s ! j)"
      and ext: "\<forall>k<length (Y_history s).
                if maximize s then Y_history s ! k \<le> Y_history s ! j
                else Y_history s ! j \<le> Y_history s ! k"
      and first: "\<forall>k<j. Y_history s ! k \<noteq> Y_history s ! j"
      unfolding history_best_def by auto
    have "(if maximize s then Max (set (Y_history s)) else Min (set (Y_history s)))
            = Y_history s ! j"
    proof (cases "maximize s")
      case True
      with ext have "\<forall>k<length (Y_history s). Y_history s ! k \<le> Y_history s ! j" by simp
      from extremum_Max[OF j this] True show ?thesis by simp
    next
      case False
      with ext have "\<forall>k<length (Y_history s). Y_history s ! j \<le> Y_history s ! k" by simp
      from extremum_Min[OF j this] False show ?thesis by simp
    qed
    with j bv bp first show ?thesis by auto
  qed
  from len empty full show ?thesis
    unfolding param_history_def value_history_def n_trial_def by blast
qed

theorem best_is_extremum_of_history_witness:
  "reachable demo_lib
     (demo_obj False [[0], [1]] [9, 4] [[2], [3], [4]] [1, 0, 1] (Some 0) (Some [3])) \<and>
   value_history (demo_obj False [[0], [1]] [9, 4] [[2], [3], [4]] [1, 0, 1] (Some 0) (Some [3]))
     = [1, 0, 1] \<and>
   best_value (demo_obj False [[0], [1]] [9, 4] [[2], [3], [4]] [1, 0, 1] (Some 0) (Some [3]))
     = Some (Min (set [1, 0, 1])) \<and>
   best_params (demo_obj False [[0], [1]] [9, 4] [[2], [3], [4]] [1, 0, 1] (Some 0) (Some [3]))
     = Some ([[2], [3], [4]] ! 1)"
  using best_is_extremum_of_history[OF demo_reachable3] demo_reachable3
  by (simp add: demo_obj_def value_history_def)

theorem best_ignores_initial_batch_counterexample:
  "BayesOpt_init demo_lib demo_f (Array1D [3]) () demo_acq_optim None None (1 / 1000000) False True
     = Inr (demo_obj False [[3]] [0] [] [] None None) \<and>
   run_optim demo_lib 1 None (demo_obj False [[3]] [0] [] [] None None)
     = (None, demo_obj False [[3]] [0] [[1]] [4] (Some 4) (Some [1])) \<and>
   values_of (initial_Y (demo_obj False [[3]] [0] [[1]] [4] (Some 4) (Some [1]))) = [0] \<and>
   value_history (demo_obj False [[3]] [0] [[1]] [4] (Some 4) (Some [1])) = [4] \<and>
   best_value (demo_obj False [[3]] [0] [[1]] [4] (Some 4) (Some [1])) = Some 4 \<and>
   Min (set (values_of (initial_Y (demo_obj False [[3]] [0] [[1]] [4] (Some 4) (Some [1]))) @
             value_history (demo_obj False [[3]] [0] [[1]] [4] (Some 4) (Some [1])))) = 0 \<and>
   \<not> (4 :: real) \<le> 0"
  using demo_init demo_run1
  by (simp add: demo_obj_def value_history_def)

text \<open>
  C10. Whenever the best value or the best location of an object is set, both are, and
  they are the value and the location recorded at one and the same index of the history.
\<close>

theorem best_is_recorded_observation:
  assumes "reachable lib s" and "best_value s \<noteq> None \<or> best_params s \<noteq> None"
  shows "\<exists>j<n_trial s. j < length (param_history s) \<and>
           best_params s = Some (param_history s ! j) \<and>
           best_value s = Some (value_history s ! j)"
proof -
  from assms(1) have hb: "history_best s" by (rule reachable_history_best)
  with assms(2) have "Y_history s \<noteq> []"
    by (auto simp: history_best_def)
  with hb show ?thesis
    unfolding history_best_def param_history_def value_history_def n_trial_def
    by auto
qed

theorem best_is_recorded_observation_witness:
  "reachable demo_lib
     (demo_obj True [[0], [1]] [9, 4] [[2], [3], [4]] [1, 0, 1] (Some 1) (Some [2])) \<and>
   best_value (demo_obj True [[0], [1]] [9, 4] [[2], [3], [4]] [1, 0, 1] (Some 1) (Some [2]))
     \<noteq> None \<and>
   best_params (demo_obj True [[0], [1]] [9, 4] [[2], [3], [4]] [1, 0, 1] (Some 1) (Some [2]))
     = Some ([[2], [3], [4]] ! 0) \<and>
   best_value (demo_obj True [[0], [1]] [9, 4] [[2], [3], [4]] [1, 0, 1] (Some 1) (Some [2]))
     = Some ([1, 0, 1] ! 0)"
  using best_is_recorded_observation[OF demo_reachable3_max] demo_reachable3_max
  by (simp add: demo_obj_def value_history_def param_history_def n_trial_def)

section \<open>Strict improvement\<close>

lemma record_obs_keeps_best:
  "best_value s \<noteq> None \<Longrightarrow> best_value (record_obs lib s ob) \<noteq> None"
  "best_params s \<noteq> None \<Longrightarrow> best_params (record_obs lib s ob) \<noteq> None"
  by (simp_all add: record_obs_best)

lemma replay_keeps_best_value:
  "best_value s \<noteq> None \<Longrightarrow> best_value (replay lib s obs) \<noteq> None"
proof (induction obs arbitrary: s)
  case Nil
  then show ?case by simp
next
  case (Cons ob obs)
  from Cons.IH[OF record_obs_keeps_best(1)[OF Cons.prems]] show ?case by simp
qed

lemma replay_keeps_best_params:
  "best_params s \<noteq> None \<Longrightarrow> best_params (replay lib s obs) \<noteq> None"
proof (induction obs arbitrary: s)
  case Nil
  then show ?case by simp
next
  case (Cons ob obs)
  from Cons.IH[OF record_obs_keeps_best(2)[OF Cons.prems]] show ?case by simp
qed

text \<open>
  C3. Once a best value \<open>b\<close> is stored, one pass through the loop body either records
  nothing and leaves the best value and location as they are, or records one observation
  and replaces both exactly when the observed value is strictly greater (maximising) or
  strictly less (minimising) than \<open>b\<close>; on a tie or a worse value both stay. A call of
  \<^verbatim>\<open>run_optim\<close>, however it ends, never unsets a best value or a best location.
\<close>

theorem best_replaced_only_on_strict_improvement:
  "(iteration lib t i s = (sg, s') \<and> best_value s = Some b \<longrightarrow>
      (X_history s' = X_history s \<and> Y_history s' = Y_history s \<and>
       best_value s' = Some b \<and> best_params s' = best_params s) \<or>
      (\<exists>loc y. X_history s' = X_history s @ [loc] \<and> Y_history s' = Y_history s @ [y] \<and>
         (if (if maximize s then b < y else y < b)
          then best_value s' = Some y \<and> best_params s' = Some loc
          else best_value s' = Some b \<and> best_params s' = best_params s))) \<and>
   (run_optim lib max_iter t s = (r, s'') \<and> best_value s \<noteq> None \<longrightarrow> best_value s'' \<noteq> None) \<and>
   (run_optim lib max_iter t s = (r, s'') \<and> best_params s \<noteq> None \<longrightarrow> best_params s'' \<noteq> None)"
proof (intro conjI impI)
  assume a: "iteration lib t i s = (sg, s') \<and> best_value s = Some b"
  then have it: "iteration lib t i s = (sg, s')" and b: "best_value s = Some b" by simp_all
  from it show "(X_history s' = X_history s \<and> Y_history s' = Y_history s \<and>
       best_value s' = Some b \<and> best_params s' = best_params s) \<or>
      (\<exists>loc y. X_history s' = X_history s @ [loc] \<and> Y_history s' = Y_history s @ [y] \<and>
         (if (if maximize s then b < y else y < b)
          then best_value s' = Some y \<and> best_params s' = Some loc
          else best_value s' = Some b \<and> best_params s' = best_params s))"
  proof (cases rule: iteration_cases)
    case (acq_fail e)
    with b show ?thesis by simp
  next
    case (obj_fail loc a e)
    with b show ?thesis by simp
  next
    case (gp_fail loc a y e g)
    with b show ?thesis by simp
  next
    case (recorded loc a y)
    have "X_history s' = X_history s @ [loc] \<and> Y_history s' = Y_history s @ [y] \<and>
         (if (if maximize s then b < y else y < b)
          then best_value s' = Some y \<and> best_params s' = Some loc
          else best_value s' = Some b \<and> best_params s' = best_params s)"
      using recorded(4) b by (simp add: record_obs_best)
    then show ?thesis by blast
  qed
next
  assume "run_optim lib max_iter t s = (r, s'') \<and> best_value s \<noteq> None"
  then have run: "loop lib t [0..max_iter - 1] s = (r, s'')" and ne: "best_value s \<noteq> None"
    by (simp_all add: run_optim_def)
  from loop_trace[OF run] obtain obs g where "s'' = (replay lib s obs)\<lparr>gpr := g\<rparr>" by blast
  with replay_keeps_best_value[OF ne, of lib obs] show "best_value s'' \<noteq> None" by simp
next
  assume "run_optim lib max_iter t s = (r, s'') \<and> best_params s \<noteq> None"
  then have run: "loop lib t [0..max_iter - 1] s = (r, s'')" and ne: "best_params s \<noteq> None"
    by (simp_all add: run_optim_def)
  from loop_trace[OF run] obtain obs g where "s'' = (replay lib s obs)\<lparr>gpr := g\<rparr>" by blast
  with replay_keeps_best_params[OF ne, of lib obs] show "best_params s'' \<noteq> None" by simp
qed

lemma demo_tie_iteration:
  "iteration demo_lib None 2 (demo_obj True [[0], [1]] [9, 4] [[2], [3]] [1, 0] (Some 1) (Some [2]))
     = (Next, demo_obj True [[0], [1]] [9, 4] [[2], [3], [4]] [1, 0, 1] (Some 1) (Some [2]))"
  by (simp add: demo_defs)

lemma demo_tie_run:
  "run_optim demo_lib 1 None (demo_obj True [[0], [1]] [9, 4] [[2], [3]] [1, 0] (Some 1) (Some [2]))
     = (None, demo_obj True [[0], [1]] [9, 4] [[2], [3], [4]] [1, 0, 1] (Some 1) (Some [2]))"
  by (simp add: demo_defs)

theorem best_replaced_only_on_strict_improvement_witness:
  "iteration demo_lib None 2 (demo_obj True [[0], [1]] [9, 4] [[2], [3]] [1, 0] (Some 1) (Some [2]))
     = (Next, demo_obj True [[0], [1]] [9, 4] [[2], [3], [4]] [1, 0, 1] (Some 1) (Some [2])) \<and>
   best_value (demo_obj True [[0], [1]] [9, 4] [[2], [3]] [1, 0] (Some 1) (Some [2])) = Some 1 \<and>
   Y_history (demo_obj True [[0], [1]] [9, 4] [[2], [3], [4]] [1, 0, 1] (Some 1) (Some [2]))
     = Y_history (demo_obj True [[0], [1]] [9, 4] [[2], [3]] [1, 0] (Some 1) (Some [2])) @ [1] \<and>
   best_value (demo_obj True [[0], [1]] [9, 4] [[2], [3], [4]] [1, 0, 1] (Some 1) (Some [2])) = Some 1 \<and>
   best_params (demo_obj True [[0], [1]] [9, 4] [[2], [3], [4]] [1, 0, 1] (Some 1) (Some [2]))
     = best_params (demo_obj True [[0], [1]] [9, 4] [[2], [3]] [1, 0] (Some 1) (Some [2])) \<and>
   run_optim demo_lib 1 None (demo_obj True [[0], [1]] [9, 4] [[2], [3]] [1, 0] (Some 1) (Some [2]))
     = (None, demo_obj True [[0], [1]] [9, 4] [[2], [3], [4]] [1, 0, 1] (Some 1) (Some [2])) \<and>
   best_value (demo_obj True [[0], [1]] [9, 4] [[2], [3], [4]] [1, 0, 1] (Some 1) (Some [2])) \<noteq> None"
  using best_replaced_only_on_strict_improvement
          [of demo_lib None 2 "demo_obj True [[0], [1]] [9, 4] [[2], [3]] [1, 0] (Some 1) (Some [2])"
              Next "demo_obj True [[0], [1]] [9, 4] [[2], [3], [4]] [1, 0, 1] (Some 1) (Some [2])" 1
              1 None]
        demo_tie_iteration demo_tie_run
  by (simp add: demo_obj_def)

section \<open>Length of the history and early termination\<close>

lemma find_upto_first:
  assumes "0 < k" "int k \<le> m" "P (int k - 1)" "\<And>j. Suc j < k \<Longrightarrow> \<not> P (int j)"
  shows "find P [0..m - 1] = Some (int k - 1)"
proof -
  have "\<exists>i<length [0..m - 1]. P ([0..m - 1] ! i) \<and> int k - 1 = [0..m - 1] ! i \<and>
          (\<forall>j<i. \<not> P ([0..m - 1] ! j))"
  proof (intro exI[of _ "k - 1"] conjI allI impI)
    show "k - 1 < length [0..m - 1]" using assms(1,2) by simp
    show "P ([0..m - 1] ! (k - 1))" using assms(1,2,3) by (simp add: of_nat_diff)
    show "int k - 1 = [0..m - 1] ! (k - 1)" using assms(1,2) by (simp add: of_nat_diff)
  next
    fix j assume "j < k - 1"
    then have "Suc j < k" by simp
    from assms(4)[OF this] show "\<not> P ([0..m - 1] ! j)"
      using \<open>Suc j < k\<close> assms(2) by simp
  qed
  then show ?thesis by (simp only: find_Some_iff)
qed

lemma find_upto_last:
  assumes "\<And>j. Suc j < nat m \<Longrightarrow> \<not> P (int j)" "0 \<le> m"
  shows "(case find P [0..m - 1] of None \<Rightarrow> m | Some i \<Rightarrow> min m (i + 1)) = m"
proof (cases "find P [0..m - 1]")
  case None
  then show ?thesis by simp
next
  case (Some x)
  then obtain i where i: "i < length [0..m - 1]" and P: "P ([0..m - 1] ! i)"
    and x: "x = [0..m - 1] ! i"
    unfolding find_Some_iff by blast
  from i have im: "int i < m" by simp
  then have xi: "x = int i" using x by simp
  have "\<not> Suc i < nat m"
  proof
    assume "Suc i < nat m"
    from assms(1)[OF this] P im show False by simp
  qed
  with im have "int i + 1 = m" by linarith
  with Some xi show ?thesis by simp
qed

text \<open>
  C2 (amended). For every call of \<^verbatim>\<open>run_optim\<close> that returns, with a non-negative
  \<open>max_iter\<close>: the object it leaves is the one it found with a list \<open>obs\<close> of
  observations recorded in turn (each in the history, the surrogate and the best state),
  and the number of these, by which both histories and the exposed count grow, is
  \<open>min max_iter (i + 1)\<close> for the first index \<open>i\<close> below \<open>max_iter\<close> at which the predicate,
  given the histories that already hold observation \<open>i\<close>, returns true, and \<open>max_iter\<close> when
  there is no such index (or no predicate). An early stop happened on the final histories.
  The length of the history itself equals this number only when the history was empty
  before the call.
\<close>

theorem run_optim_history_growth:
  assumes "run_optim lib max_iter t s = (None, s')" and "0 \<le> max_iter"
  shows "\<exists>obs. s' = replay lib s obs \<and>
     int (length obs) =
       (case find (\<lambda>i. fired t i (X_history (replay lib s (take (nat i + 1) obs)))
                                 (Y_history (replay lib s (take (nat i + 1) obs))))
                  [0..max_iter - 1] of
          None \<Rightarrow> max_iter
        | Some i \<Rightarrow> min max_iter (i + 1)) \<and>
     n_trial s' = n_trial s + length obs \<and>
     length (param_history s') = length (param_history s) + length obs \<and>
     (int (length obs) < max_iter \<longrightarrow>
        fired t (int (length obs) - 1) (param_history s') (value_history s'))"
proof -
  let ?is = "[0..max_iter - 1]"
  from assms(1) have "loop lib t ?is s = (None, s')" by (simp add: run_optim_def)
  from loop_stop[OF this] obtain obs where
    len: "length obs \<le> length ?is" and s': "s' = replay lib s obs" and
    nf: "\<And>j. Suc j < length obs \<Longrightarrow>
           \<not> fired t (?is ! j) (X_history (replay lib s (take (Suc j) obs)))
                             (Y_history (replay lib s (take (Suc j) obs)))" and
    fr: "length obs < length ?is \<Longrightarrow>
           obs \<noteq> [] \<and> fired t (?is ! (length obs - 1)) (X_history s') (Y_history s')"
    by blast
  let ?k = "length obs"
  let ?P = "\<lambda>i. fired t i (X_history (replay lib s (take (nat i + 1) obs)))
                         (Y_history (replay lib s (take (nat i + 1) obs)))"
  from len assms(2) have km: "int ?k \<le> max_iter" by simp
  have nfP: "\<not> ?P (int j)" if "Suc j < ?k" for j
  proof -
    from that km have "?is ! j = int j" by simp
    with nf[OF that] show ?thesis by simp
  qed
  have early: "0 < ?k \<and> fired t (int ?k - 1) (X_history s') (Y_history s')"
    if "int ?k < max_iter"
  proof -
    from that have lt: "?k < length ?is" by simp
    from fr[OF lt] have ne: "obs \<noteq> []"
      and f: "fired t (?is ! (?k - 1)) (X_history s') (Y_history s')" by simp_all
    from ne have pos: "0 < ?k" by simp
    then have "int (?k - 1) = int ?k - 1" by (cases obs) simp_all
    moreover from that pos have "?is ! (?k - 1) = int (?k - 1)" by simp
    ultimately have "?is ! (?k - 1) = int ?k - 1" by simp
    with f pos show ?thesis by simp
  qed
  have count: "int ?k = (case find ?P ?is of None \<Rightarrow> max_iter | Some i \<Rightarrow> min max_iter (i + 1))"
  proof (cases "int ?k < max_iter")
    case True
    from early[OF True] have pos: "0 < ?k"
      and f: "fired t (int ?k - 1) (X_history s') (Y_history s')" by simp_all
    from pos have "nat (int ?k - 1) + 1 = ?k" by linarith
    with f s' have "?P (int ?k - 1)" by simp
    from find_upto_first[of ?k max_iter ?P, OF pos km this nfP]
    have "find ?P ?is = Some (int ?k - 1)" by simp
    with km show ?thesis by simp
  next
    case False
    with km have eq: "int ?k = max_iter" by simp
    then have "nat max_iter = ?k" by simp
    with nfP have "\<And>j. Suc j < nat max_iter \<Longrightarrow> \<not> ?P (int j)" by simp
    from find_upto_last[of max_iter ?P, OF this assms(2)] eq show ?thesis by simp
  qed
  have grow: "n_trial s' = n_trial s + ?k"
    "length (param_history s') = length (param_history s) + ?k"
    using s' by (simp_all add: n_trial_def param_history_def)
  have stop: "int ?k < max_iter \<longrightarrow>
        fired t (int ?k - 1) (param_history s') (value_history s')"
    using early by (simp add: param_history_def value_history_def)
  from s' count grow stop show ?thesis by blast
qed

lemma demo_run_stop:
  "run_optim demo_lib 5 (Some demo_stop) (demo_obj False [[0], [1]] [9, 4] [] [] None None)
     = (None, demo_obj False [[0], [1]] [9, 4] [[2], [3]] [1, 0] (Some 0) (Some [3]))"
  by (simp add: demo_defs demo_stop_def upto_rec1)

theorem run_optim_history_growth_witness:
  "run_optim demo_lib 5 (Some demo_stop) (demo_obj False [[0], [1]] [9, 4] [] [] None None)
     = (None, demo_obj False [[0], [1]] [9, 4] [[2], [3]] [1, 0] (Some 0) (Some [3])) \<and>
   (0 :: int) \<le> 5 \<and>
   n_trial (demo_obj False [[0], [1]] [9, 4] [[2], [3]] [1, 0] (Some 0) (Some [3]))
     = n_trial (demo_obj False [[0], [1]] [9, 4] [] [] None None) + 2 \<and>
   (2 :: int) = min 5 (1 + 1) \<and>
   \<not> fired (Some demo_stop) 0 [[2]] [1] \<and>
   fired (Some demo_stop) 1
     (param_history (demo_obj False [[0], [1]] [9, 4] [[2], [3]] [1, 0] (Some 0) (Some [3])))
     (value_history (demo_obj False [[0], [1]] [9, 4] [[2], [3]] [1, 0] (Some 0) (Some [3])))"
  using run_optim_history_growth[OF demo_run_stop] demo_run_stop
  by (simp add: demo_obj_def n_trial_def param_history_def value_history_def fired_def
        demo_stop_def)

lemma demo_second_run:
  "run_optim demo_lib 3 (Some always_stop) (demo_obj False [[3]] [0] [[1]] [4] (Some 4) (Some [1]))
     = (None, demo_obj False [[3]] [0] [[1], [2]] [4, 1] (Some 1) (Some [2]))"
  by (simp add: demo_defs always_stop_def upto_rec1)

theorem history_length_second_run_counterexample:
  "reachable demo_lib (demo_obj False [[3]] [0] [[1]] [4] (Some 4) (Some [1])) \<and>
   run_optim demo_lib 3 (Some always_stop) (demo_obj False [[3]] [0] [[1]] [4] (Some 4) (Some [1]))
     = (None, demo_obj False [[3]] [0] [[1], [2]] [4, 1] (Some 1) (Some [2])) \<and>
   fired (Some always_stop) 0
     (param_history (demo_obj False [[3]] [0] [[1], [2]] [4, 1] (Some 1) (Some [2])))
     (value_history (demo_obj False [[3]] [0] [[1], [2]] [4, 1] (Some 1) (Some [2]))) \<and>
   length (param_history (demo_obj False [[3]] [0] [[1], [2]] [4, 1] (Some 1) (Some [2]))) = 2 \<and>
   n_trial (demo_obj False [[3]] [0] [[1], [2]] [4, 1] (Some 1) (Some [2])) = 2 \<and>
   int (n_trial (demo_obj False [[3]] [0] [[1], [2]] [4, 1] (Some 1) (Some [2]))) \<noteq> min 3 (0 + 1)"
  using demo_reachable1 demo_second_run
  by (simp add: demo_obj_def n_trial_def param_history_def value_history_def fired_def
        always_stop_def)

section \<open>Validation of the initial values\<close>

lemma transform_data_shape0: "transform_data Y = Inr Y' \<Longrightarrow> length Y' = shape0 Y"
  by (cases Y) (auto split: if_splits)

text \<open>
  C4. With the initial locations in canonical shape \<open>X\<close>, initial values whose leading
  dimension differs from the number of rows of \<open>X\<close> make \<^verbatim>\<open>__calculate_initialY\<close> and
  with it the constructor raise \<^verbatim>\<open>ValueError\<close>, whatever the library is (so the
  regression constructor has no part in it), and the constructor yields no object. With
  the same leading dimension (and values that can be brought into canonical shape)
  \<^verbatim>\<open>__calculate_initialY\<close> and the check of the sample counts raise nothing, and the
  constructor returns an object whenever the regression constructor returns.
\<close>

theorem initial_values_count_checked:
  "(transform_data initial_input = Inr X \<and> shape0 Y \<noteq> length X \<longrightarrow>
      calculate_initialY f u X (Some Y) = Inl ValueError \<and>
      BayesOpt_init lib f initial_input a ao (Some Y) k al mx u = Inl ValueError) \<and>
   (transform_data initial_input = Inr X \<and> shape0 Y = length X \<and> transform_data Y = Inr Y' \<and>
    GPR lib X (Array2D Y') al (case k of None \<Rightarrow> GaussianRBFKernel lib 1 1 | Some k' \<Rightarrow> k') = Inr g \<longrightarrow>
      calculate_initialY f u X (Some Y) = Inr (Array2D Y') \<and>
      data_checker X (Array2D Y') = Inr () \<and>
      (\<exists>s. BayesOpt_init lib f initial_input a ao (Some Y) k al mx u = Inr s \<and>
           initial_X s = X \<and> initial_Y s = Array2D Y' \<and> gpr s = g))"
proof (intro conjI impI)
  assume h: "transform_data initial_input = Inr X \<and> shape0 Y \<noteq> length X"
  then show "calculate_initialY f u X (Some Y) = Inl ValueError"
    by (simp add: calculate_initialY_def)
  with h show "BayesOpt_init lib f initial_input a ao (Some Y) k al mx u = Inl ValueError"
    by (simp add: BayesOpt_init_def)
next
  assume h: "transform_data initial_input = Inr X \<and> shape0 Y = length X \<and>
    transform_data Y = Inr Y' \<and>
    GPR lib X (Array2D Y') al (case k of None \<Rightarrow> GaussianRBFKernel lib 1 1 | Some k' \<Rightarrow> k') = Inr g"
  then have c: "calculate_initialY f u X (Some Y) = Inr (Array2D Y')"
    by (simp add: calculate_initialY_def)
  from h transform_data_shape0[of Y Y'] have d: "data_checker X (Array2D Y') = Inr ()"
    by (simp add: data_checker_def)
  from c show "calculate_initialY f u X (Some Y) = Inr (Array2D Y')" .
  from d show "data_checker X (Array2D Y') = Inr ()" .
  from h c d show "\<exists>s. BayesOpt_init lib f initial_input a ao (Some Y) k al mx u = Inr s \<and>
           initial_X s = X \<and> initial_Y s = Array2D Y' \<and> gpr s = g"
    by (simp add: BayesOpt_init_def Let_def)
qed

theorem initial_values_count_checked_witness:
  "transform_data five_by_two = Inr [[0, 0], [1, 1], [2, 2], [3, 3], [4, 4]] \<and>
   shape0 (Array1D [1, 2, 3, 4]) \<noteq> length [[0, 0], [1, 1], [2, 2], [3, 3], [4 :: real, 4]] \<and>
   calculate_initialY demo_f True [[0, 0], [1, 1], [2, 2], [3, 3], [4, 4]] (Some (Array1D [1, 2, 3, 4]))
     = Inl ValueError \<and>
   BayesOpt_init no_fit_lib demo_f five_by_two () demo_acq_optim (Some (Array1D [1, 2, 3, 4])) None
       (1 / 1000000) False True = Inl ValueError \<and>
   BayesOpt_init no_fit_lib demo_f five_by_two () demo_acq_optim (Some (Array1D [1, 2, 3, 4, 5])) None
       (1 / 1000000) False True = Inl (Raised ''LinAlgError'') \<and>
   shape0 (Array1D [1, 2, 3, 4, 5]) = length [[0, 0], [1, 1], [2, 2], [3, 3], [4 :: real, 4]] \<and>
   calculate_initialY demo_f True [[0, 0], [1, 1], [2, 2], [3, 3], [4, 4]]
       (Some (Array1D [1, 2, 3, 4, 5])) = Inr (Array2D [[1], [2], [3], [4], [5]]) \<and>
   BayesOpt_init demo_lib demo_f five_by_two () demo_acq_optim (Some (Array1D [1, 2, 3, 4, 5])) None
       (1 / 1000000) False True
     = Inr ((demo_obj False [[0, 0], [1, 1], [2, 2], [3, 3], [4, 4]] [] [] [] None None)
              \<lparr>initial_Y := Array2D [[1], [2], [3], [4], [5]],
               gpr := demo_gpr [[0, 0], [1, 1], [2, 2], [3, 3], [4, 4]] [1, 2, 3, 4, 5]\<rparr>)"
  using initial_values_count_checked
          [of five_by_two "[[0, 0], [1, 1], [2, 2], [3, 3], [4, 4]]" "Array1D [1, 2, 3, 4]"
              demo_f True no_fit_lib "()" demo_acq_optim None "1 / 1000000" False]
        initial_values_count_checked
          [of five_by_two "[[0, 0], [1, 1], [2, 2], [3, 3], [4, 4]]" "Array1D [1, 2, 3, 4, 5]"
              demo_f True demo_lib "()" demo_acq_optim None "1 / 1000000" False]
  by (simp add: demo_defs five_by_two_def no_fit_lib_def failing_GPR_def)

section \<open>Calling the objective\<close>






section \<open>Exceptions in the loop\<close>

lemma loop_acq_fail:
  "acq_optimizer s (gpr s) (acq s) i = Inl e \<Longrightarrow> loop lib t (i # rest) s = (Some e, s)"
  by (simp add: iteration_acq_fail)

lemma loop_obj_fail:
  "acq_optimizer s (gpr s) (acq s) i = Inr (loc, a) \<Longrightarrow> objective_at s loc = Inl e \<Longrightarrow>
   loop lib t (i # rest) s = (Some e, s)"
  by (simp add: iteration_obj_fail[of s i loc a e])

lemma loop_gp_fail:
  "acq_optimizer s (gpr s) (acq s) i = Inr (loc, a) \<Longrightarrow> objective_at s loc = Inr y \<Longrightarrow>
   append_data lib (gpr s) [loc] y = (Some e, g) \<Longrightarrow>
   loop lib t (i # rest) s = (Some e, s\<lparr>gpr := g\<rparr>)"
  by (simp add: iteration_gp_fail[of s i loc a y lib e g])

lemma loop_after_fail:
  "acq_optimizer s (gpr s) (acq s) i = Inr (loc, a) \<Longrightarrow> objective_at s loc = Inr y \<Longrightarrow>
   fst (append_data lib (gpr s) [loc] y) = None \<Longrightarrow>
   after_record lib t i loc y (record_obs lib s (loc, y)) = Raise e \<Longrightarrow>
   loop lib t (i # rest) s = (Some e, record_obs lib s (loc, y))"
  by (simp add: iteration_recorded[of s i loc a y lib t])

text \<open>
  C6 (amended). A raise of the acquisition optimiser or of the objective ends the loop at
  once with that exception and the object untouched; a raise of the surrogate update ends
  it with the histories and the best state untouched: in these cases they are as the last
  completed iteration left them. A raise of the termination predicate ends the loop at
  once as well, but with the observation of that iteration already recorded in the history
  and in the best state, since the predicate is asked after both. No later index is run.
  After a call of \<^verbatim>\<open>run_optim\<close> that raised, the object is, but for its surrogate,
  the one obtained by recording a list of at most \<open>max_iter\<close> observations in turn, each
  in the history and in the best state together: for the iteration that failed either both
  happened or neither.
\<close>

theorem failure_aborts_between_observations:
  "(acq_optimizer s (gpr s) (acq s) i = Inl e \<longrightarrow> loop lib t (i # rest) s = (Some e, s)) \<and>
   (acq_optimizer s (gpr s) (acq s) i = Inr (loc, a) \<and> objective_at s loc = Inl e \<longrightarrow>
      loop lib t (i # rest) s = (Some e, s)) \<and>
   (acq_optimizer s (gpr s) (acq s) i = Inr (loc, a) \<and> objective_at s loc = Inr y \<and>
    append_data lib (gpr s) [loc] y = (Some e, g) \<longrightarrow>
      loop lib t (i # rest) s = (Some e, s\<lparr>gpr := g\<rparr>)) \<and>
   (acq_optimizer s (gpr s) (acq s) i = Inr (loc, a) \<and> objective_at s loc = Inr y \<and>
    fst (append_data lib (gpr s) [loc] y) = None \<and>
    bar_report lib loc y (best_params (record_obs lib s (loc, y)))
      (best_value (record_obs lib s (loc, y))) = None \<and>
    t = Some p \<and> p i (X_history s @ [loc]) (Y_history s @ [y]) = Inl e \<longrightarrow>
      loop lib t (i # rest) s = (Some e, record_obs lib s (loc, y))) \<and>
   (run_optim lib max_iter t s0 = (Some e, s') \<longrightarrow>
      (\<exists>obs g. int (length obs) \<le> max_iter \<and> s' = (replay lib s0 obs)\<lparr>gpr := g\<rparr>))"
proof (intro conjI impI)
  assume "acq_optimizer s (gpr s) (acq s) i = Inl e"
  then show "loop lib t (i # rest) s = (Some e, s)" by (rule loop_acq_fail)
next
  assume "acq_optimizer s (gpr s) (acq s) i = Inr (loc, a) \<and> objective_at s loc = Inl e"
  then have A: "acq_optimizer s (gpr s) (acq s) i = Inr (loc, a)"
    and B: "objective_at s loc = Inl e" by blast+
  from loop_obj_fail[OF A B] show "loop lib t (i # rest) s = (Some e, s)" .
next
  assume "acq_optimizer s (gpr s) (acq s) i = Inr (loc, a) \<and> objective_at s loc = Inr y \<and>
    append_data lib (gpr s) [loc] y = (Some e, g)"
  then have A: "acq_optimizer s (gpr s) (acq s) i = Inr (loc, a)"
    and B: "objective_at s loc = Inr y"
    and C: "append_data lib (gpr s) [loc] y = (Some e, g)" by blast+
  from loop_gp_fail[OF A B C] show "loop lib t (i # rest) s = (Some e, s\<lparr>gpr := g\<rparr>)" .
next
  assume h: "acq_optimizer s (gpr s) (acq s) i = Inr (loc, a) \<and> objective_at s loc = Inr y \<and>
    fst (append_data lib (gpr s) [loc] y) = None \<and>
    bar_report lib loc y (best_params (record_obs lib s (loc, y)))
      (best_value (record_obs lib s (loc, y))) = None \<and>
    t = Some p \<and> p i (X_history s @ [loc]) (Y_history s @ [y]) = Inl e"
  then have A: "acq_optimizer s (gpr s) (acq s) i = Inr (loc, a)"
    and B: "objective_at s loc = Inr y"
    and C: "fst (append_data lib (gpr s) [loc] y) = None" by blast+
  from h have D: "after_record lib t i loc y (record_obs lib s (loc, y)) = Raise e"
    by (simp add: after_record_def)
  from loop_after_fail[OF A B C D]
  show "loop lib t (i # rest) s = (Some e, record_obs lib s (loc, y))" .
next
  assume "run_optim lib max_iter t s0 = (Some e, s')"
  then have run: "loop lib t [0..max_iter - 1] s0 = (Some e, s')" by (simp add: run_optim_def)
  from loop_trace[OF run] obtain obs g where
    len: "length obs \<le> length [0..max_iter - 1]" and s': "s' = (replay lib s0 obs)\<lparr>gpr := g\<rparr>"
    by blast
  from run have "[0..max_iter - 1] \<noteq> []" by auto
  then have "0 \<le> max_iter - 1" by simp
  with len have "int (length obs) \<le> max_iter" by simp
  with s' show "\<exists>obs g. int (length obs) \<le> max_iter \<and> s' = (replay lib s0 obs)\<lparr>gpr := g\<rparr>"
    by blast
qed

lemmas raising_defs =
  acq_optim_raising_def f_raising_def append_data_raising_def stop_raising_def after_record_def
  record_obs_def

theorem failure_aborts_between_observations_witness:
  "loop demo_lib None [1, 2]
     ((demo_obj False [[0], [1]] [9, 4] [[2]] [1] (Some 1) (Some [2]))
        \<lparr>acq_optimizer := acq_optim_raising\<rparr>)
     = (Some (Raised ''acq_optim''),
        (demo_obj False [[0], [1]] [9, 4] [[2]] [1] (Some 1) (Some [2]))
          \<lparr>acq_optimizer := acq_optim_raising\<rparr>) \<and>
   loop demo_lib None [0, 1]
     ((demo_obj False [[0], [1]] [9, 4] [] [] None None)\<lparr>objectivefunction := f_raising\<rparr>)
     = (Some (Raised ''objective''),
        (demo_obj False [[0], [1]] [9, 4] [] [] None None)\<lparr>objectivefunction := f_raising\<rparr>) \<and>
   loop (demo_lib\<lparr>append_data := append_data_raising\<rparr>) None [0, 1]
     (demo_obj False [[0], [1]] [9, 4] [] [] None None)
     = (Some (Raised ''LinAlgError''),
        (demo_obj False [[0], [1]] [9, 4] [] [] None None)
          \<lparr>gpr := (demo_gpr [[0], [1]] [9, 4])\<lparr>X_train := [[0], [1], [2]]\<rparr>\<rparr>) \<and>
   loop demo_lib (Some stop_raising) [1, 2]
     (demo_obj False [[0], [1]] [9, 4] [[2]] [1] (Some 1) (Some [2]))
     = (Some (Raised ''terminate_function''),
        demo_obj False [[0], [1]] [9, 4] [[2], [3]] [1, 0] (Some 0) (Some [3])) \<and>
   run_optim demo_lib 3 (Some stop_raising) (demo_obj False [[0], [1]] [9, 4] [] [] None None)
     = (Some (Raised ''terminate_function''),
        demo_obj False [[0], [1]] [9, 4] [[2], [3]] [1, 0] (Some 0) (Some [3])) \<and>
   demo_obj False [[0], [1]] [9, 4] [[2], [3]] [1, 0] (Some 0) (Some [3])
     = replay demo_lib (demo_obj False [[0], [1]] [9, 4] [] [] None None) [([2], 1), ([3], 0)]"
  using failure_aborts_between_observations
          [where s = "(demo_obj False [[0], [1]] [9, 4] [[2]] [1] (Some 1) (Some [2]))
                        \<lparr>acq_optimizer := acq_optim_raising\<rparr>"
             and i = 1 and e = "Raised ''acq_optim''" and lib = demo_lib and t = None
             and rest = "[2]"]
        failure_aborts_between_observations
          [where s = "(demo_obj False [[0], [1]] [9, 4] [] [] None None)
                        \<lparr>objectivefunction := f_raising\<rparr>"
             and i = 0 and e = "Raised ''objective''" and lib = demo_lib and t = None
             and rest = "[1]" and loc = "[2]" and a = 0]
        failure_aborts_between_observations
          [where s = "demo_obj False [[0], [1]] [9, 4] [] [] None None"
             and i = 0 and e = "Raised ''LinAlgError''"
             and lib = "demo_lib\<lparr>append_data := append_data_raising\<rparr>" and t = None
             and rest = "[1]" and loc = "[2]" and a = 0 and y = 1
             and g = "(demo_gpr [[0], [1]] [9, 4])\<lparr>X_train := [[0], [1], [2]]\<rparr>"]
        failure_aborts_between_observations
          [where s = "demo_obj False [[0], [1]] [9, 4] [[2]] [1] (Some 1) (Some [2])"
             and i = 1 and e = "Raised ''terminate_function''" and lib = demo_lib
             and t = "Some stop_raising" and p = stop_raising
             and rest = "[2]" and loc = "[3]" and a = 0 and y = 0
             and max_iter = 3 and ?s0.0 = "demo_obj False [[0], [1]] [9, 4] [] [] None None"
             and s' = "demo_obj False [[0], [1]] [9, 4] [[2], [3]] [1, 0] (Some 0) (Some [3])"]
  by (simp add: demo_defs raising_defs upto_rec1)

lemma demo_run_one_stop_raising:
  "run_optim demo_lib 1 (Some stop_raising) (demo_obj False [[0], [1]] [9, 4] [] [] None None)
     = (None, demo_obj False [[0], [1]] [9, 4] [[2]] [1] (Some 1) (Some [2]))"
  by (simp add: demo_defs stop_raising_def)

lemma demo_run_stop_raising:
  "run_optim demo_lib 3 (Some stop_raising) (demo_obj False [[0], [1]] [9, 4] [] [] None None)
     = (Some (Raised ''terminate_function''),
        demo_obj False [[0], [1]] [9, 4] [[2], [3]] [1, 0] (Some 0) (Some [3]))"
  by (simp add: demo_defs stop_raising_def upto_rec1)

theorem predicate_failure_keeps_observation_counterexample:
  "run_optim demo_lib 1 (Some stop_raising) (demo_obj False [[0], [1]] [9, 4] [] [] None None)
     = (None, demo_obj False [[0], [1]] [9, 4] [[2]] [1] (Some 1) (Some [2])) \<and>
   stop_raising 1 [[2], [3]] [1, 0] = Inl (Raised ''terminate_function'') \<and>
   run_optim demo_lib 3 (Some stop_raising) (demo_obj False [[0], [1]] [9, 4] [] [] None None)
     = (Some (Raised ''terminate_function''),
        demo_obj False [[0], [1]] [9, 4] [[2], [3]] [1, 0] (Some 0) (Some [3])) \<and>
   value_history (demo_obj False [[0], [1]] [9, 4] [[2]] [1] (Some 1) (Some [2])) = [1] \<and>
   value_history (demo_obj False [[0], [1]] [9, 4] [[2], [3]] [1, 0] (Some 0) (Some [3])) = [1, 0] \<and>
   best_value (demo_obj False [[0], [1]] [9, 4] [[2]] [1] (Some 1) (Some [2])) = Some 1 \<and>
   best_value (demo_obj False [[0], [1]] [9, 4] [[2], [3]] [1, 0] (Some 0) (Some [3])) = Some 0 \<and>
   value_history (demo_obj False [[0], [1]] [9, 4] [[2], [3]] [1, 0] (Some 0) (Some [3]))
     \<noteq> value_history (demo_obj False [[0], [1]] [9, 4] [[2]] [1] (Some 1) (Some [2])) \<and>
   best_value (demo_obj False [[0], [1]] [9, 4] [[2], [3]] [1, 0] (Some 0) (Some [3]))
     \<noteq> best_value (demo_obj False [[0], [1]] [9, 4] [[2]] [1] (Some 1) (Some [2]))"
  using demo_run_one_stop_raising demo_run_stop_raising
  by (simp add: demo_obj_def value_history_def stop_raising_def)

section \<open>The progress report\<close>

lemma record_obs_bar: "record_obs (lib\<lparr>bar_report := b\<rparr>) s ob = record_obs lib s ob"
  by (simp add: record_obs_def)

text \<open>
  C8 (amended). The loop body does not catch what the progress report raises: when the
  report of an iteration raises, the loop ends at once with that exception, no later index
  is run and the termination predicate is not asked. The observation of that iteration is
  recorded before the report, and the object the call leaves is the one that the same loop
  body leaves with a report that does not raise: the failure changes nothing in the
  history, the surrogate or the best state of that iteration.
\<close>

theorem progress_failure_aborts_after_recording:
  "acq_optimizer s (gpr s) (acq s) i = Inr (loc, a) \<and> objective_at s loc = Inr y \<and>
   fst (append_data lib (gpr s) [loc] y) = None \<and>
   bar_report lib loc y (best_params (record_obs lib s (loc, y)))
     (best_value (record_obs lib s (loc, y))) = Some e \<longrightarrow>
     loop lib t (i # rest) s = (Some e, record_obs lib s (loc, y)) \<and>
     snd (iteration (lib\<lparr>bar_report := (\<lambda>loc y bp bv. None)\<rparr>) t i s) = record_obs lib s (loc, y)"
proof
  assume h: "acq_optimizer s (gpr s) (acq s) i = Inr (loc, a) \<and> objective_at s loc = Inr y \<and>
   fst (append_data lib (gpr s) [loc] y) = None \<and>
   bar_report lib loc y (best_params (record_obs lib s (loc, y)))
     (best_value (record_obs lib s (loc, y))) = Some e"
  then have A: "acq_optimizer s (gpr s) (acq s) i = Inr (loc, a)"
    and B: "objective_at s loc = Inr y"
    and C: "fst (append_data lib (gpr s) [loc] y) = None" by blast+
  from h have D: "after_record lib t i loc y (record_obs lib s (loc, y)) = Raise e"
    by (simp add: after_record_def)
  let ?quiet = "lib\<lparr>bar_report := (\<lambda>loc y bp bv. None)\<rparr>"
  from C have C': "fst (append_data ?quiet (gpr s) [loc] y) = None" by simp
  from iteration_recorded[OF A B C', of t]
  have "snd (iteration ?quiet t i s) = record_obs lib s (loc, y)"
    by (simp add: record_obs_bar)
  with loop_after_fail[OF A B C D]
  show "loop lib t (i # rest) s = (Some e, record_obs lib s (loc, y)) \<and>
     snd (iteration (lib\<lparr>bar_report := (\<lambda>loc y bp bv. None)\<rparr>) t i s) = record_obs lib s (loc, y)"
    by simp
qed

theorem progress_failure_aborts_after_recording_witness:
  "acq_optimizer (demo_obj False [[3]] [0] [] [] None None)
     (gpr (demo_obj False [[3]] [0] [] [] None None)) () 0 = Inr ([1], 0) \<and>
   bar_report bar_raising_lib [1] 4 (Some [1]) (Some 4) = Some (Raised ''tqdm'') \<and>
   loop bar_raising_lib (Some always_stop) [0, 1] (demo_obj False [[3]] [0] [] [] None None)
     = (Some (Raised ''tqdm''), demo_obj False [[3]] [0] [[1]] [4] (Some 4) (Some [1])) \<and>
   snd (iteration demo_lib (Some always_stop) 0 (demo_obj False [[3]] [0] [] [] None None))
     = demo_obj False [[3]] [0] [[1]] [4] (Some 4) (Some [1])"
  using progress_failure_aborts_after_recording
          [where s = "demo_obj False [[3]] [0] [] [] None None" and i = 0 and loc = "[1]"
             and a = 0 and y = 4 and lib = bar_raising_lib and e = "Raised ''tqdm''"
             and t = "Some always_stop" and rest = "[1]"]
  by (simp add: demo_defs bar_raising_lib_def bar_raising_def record_obs_def always_stop_def)

theorem progress_failure_is_fatal_counterexample:
  "run_optim bar_raising_lib 2 None (demo_obj False [[3]] [0] [] [] None None)
     = (Some (Raised ''tqdm''), demo_obj False [[3]] [0] [[1]] [4] (Some 4) (Some [1])) \<and>
   n_trial (demo_obj False [[3]] [0] [[1]] [4] (Some 4) (Some [1])) = 1 \<and>
   run_optim demo_lib 2 None (demo_obj False [[3]] [0] [] [] None None)
     = (None, demo_obj False [[3]] [0] [[1], [2]] [4, 1] (Some 1) (Some [2])) \<and>
   n_trial (demo_obj False [[3]] [0] [[1], [2]] [4, 1] (Some 1) (Some [2])) = 2 \<and>
   best_value (demo_obj False [[3]] [0] [[1]] [4] (Some 4) (Some [1]))
     \<noteq> best_value (demo_obj False [[3]] [0] [[1], [2]] [4, 1] (Some 1) (Some [2]))"
  by (simp add: demo_defs bar_raising_lib_def bar_raising_def n_trial_def upto_rec1)

section \<open>Repeated calls\<close>







section \<open>The convention of the constructor and of the loop\<close>











section \<open>The training set of the surrogate\<close>













end
